theory Spec2Isabelle
  imports Complex_Main
begin

section \<open>Common data\<close>

text \<open>
  The scalar type \<open>T\<close> of the plant and the C++ \<open>double\<close> are modelled by the reals
  wherever a claim is about the arithmetic of finite values. Every
  \<open>DRAKE_DEMAND\<close> (abort), \<open>DRAKE_THROW_UNLESS\<close> and \<open>throw\<close> of the source is a
  branch returning \<open>Inl\<close> of an error. \<open>DRAKE_ASSERT\<close> is compiled out of release
  builds and is recorded as a comment only.
\<close>

datatype error =
    DemandFailed
  | ThrowUnless
  | LogicError string
  | RuntimeError string
  | OutOfRange

section \<open>Joint limit penalty force\<close>

text \<open>
  The lambda \<open>CalcPenaltyForce\<close> of \<open>MultibodyPlant::AddJointLimitsPenaltyForces\<close>.
\<close>

definition CalcPenaltyForce ::
  "real \<Rightarrow> real \<Rightarrow> real \<Rightarrow> real \<Rightarrow> real \<Rightarrow> real \<Rightarrow> error + real" where
  "CalcPenaltyForce lower_limit upper_limit stiffness damping q v =
     (if \<not> lower_limit \<le> upper_limit then Inl DemandFailed
      else if \<not> stiffness \<ge> 0 then Inl DemandFailed
      else if \<not> damping \<ge> 0 then Inl DemandFailed
      else if q > upper_limit then
        (let delta_q = q - upper_limit;
             limit_force = - stiffness * delta_q - damping * v
         in Inr (min limit_force 0))
      else if q < lower_limit then
        (let delta_q = q - lower_limit;
             limit_force = - stiffness * delta_q - damping * v
         in Inr (max limit_force 0))
      else Inr 0)"

section \<open>Stribeck friction\<close>

record CoulombFriction =
  static_friction :: real
  dynamic_friction :: real

record StribeckModel =
  v_stiction_tolerance :: real
  inv_v_stiction_tolerance :: real

text \<open>
  Modelled from the spec: the setter \<open>StribeckModel::set_stiction_tolerance\<close> lives in
  the header, which is missing; the spec gives \<open>v = slip_speed / stiction_tolerance\<close>,
  so the stored inverse is \<open>1 / stiction_tolerance\<close>.
\<close>

definition set_stiction_tolerance :: "real \<Rightarrow> StribeckModel" where
  "set_stiction_tolerance v_stiction =
     \<lparr>v_stiction_tolerance = v_stiction, inv_v_stiction_tolerance = 1 / v_stiction\<rparr>"

text \<open>\<open>StribeckModel::step5\<close>; the source asserts \<open>0 \<le> x \<le> 1\<close> in debug builds.\<close>

definition step5 :: "real \<Rightarrow> real" where
  "step5 x = (let x3 = x * x * x in x3 * (10 + x * (6 * x - 15)))"

text \<open>
  \<open>StribeckModel::ComputeFrictionCoefficient\<close>; the source asserts
  \<open>speed_BcAc \<ge> 0\<close> in debug builds.
\<close>

definition ComputeFrictionCoefficient ::
  "StribeckModel \<Rightarrow> real \<Rightarrow> CoulombFriction \<Rightarrow> real" where
  "ComputeFrictionCoefficient model speed_BcAc friction =
     (let mu_d = dynamic_friction friction;
          mu_s = static_friction friction;
          v = speed_BcAc * inv_v_stiction_tolerance model
      in if v \<ge> 3 then mu_d
         else if v \<ge> 1 then mu_s - (mu_s - mu_d) * step5 ((v - 1) / 2)
         else mu_s * step5 v)"

text \<open>The quintic of the spec, \<open>s5(x) = 10x\<^sup>3 - 15x\<^sup>4 + 6x\<^sup>5\<close>.\<close>

definition s5 :: "real \<Rightarrow> real" where
  "s5 x = 10 * x ^ 3 - 15 * x ^ 4 + 6 * x ^ 5"

section \<open>Vectors and spatial quantities\<close>

text \<open>
  \<open>Vector3<T>\<close> with the operations the plant uses. A spatial velocity and a spatial
  force are both a pair of a rotational and a translational vector.
\<close>

type_synonym Vector3 = "real \<times> real \<times> real"

definition vzero :: Vector3 where
  "vzero = (0, 0, 0)"

fun vadd :: "Vector3 \<Rightarrow> Vector3 \<Rightarrow> Vector3" where
  "vadd (a1, a2, a3) (b1, b2, b3) = (a1 + b1, a2 + b2, a3 + b3)"

fun vsub :: "Vector3 \<Rightarrow> Vector3 \<Rightarrow> Vector3" where
  "vsub (a1, a2, a3) (b1, b2, b3) = (a1 - b1, a2 - b2, a3 - b3)"

fun vneg :: "Vector3 \<Rightarrow> Vector3" where
  "vneg (a1, a2, a3) = (- a1, - a2, - a3)"




fun cross :: "Vector3 \<Rightarrow> Vector3 \<Rightarrow> Vector3" where
  "cross (a1, a2, a3) (b1, b2, b3) =
     (a2 * b3 - a3 * b2, a3 * b1 - a1 * b3, a1 * b2 - a2 * b1)"


record SpatialVector =
  rotational :: Vector3
  translational :: Vector3

type_synonym SpatialVelocity = SpatialVector
type_synonym SpatialForce = SpatialVector

definition SpatialForce_Zero :: SpatialForce where
  "SpatialForce_Zero = \<lparr>rotational = vzero, translational = vzero\<rparr>"

definition sf_add :: "SpatialForce \<Rightarrow> SpatialForce \<Rightarrow> SpatialForce" where
  "sf_add F G = \<lparr>rotational = vadd (rotational F) (rotational G),
                 translational = vadd (translational F) (translational G)\<rparr>"

definition sf_neg :: "SpatialForce \<Rightarrow> SpatialForce" where
  "sf_neg F = \<lparr>rotational = vneg (rotational F), translational = vneg (translational F)\<rparr>"


definition Shift_force :: "SpatialForce \<Rightarrow> Vector3 \<Rightarrow> SpatialForce" where
  "Shift_force F p =
     \<lparr>rotational = vsub (rotational F) (cross p (translational F)),
      translational = translational F\<rparr>"

section \<open>Geometry, plant and context\<close>

text \<open>
  A \<open>GeometryId\<close> may be the null identifier (\<open>None\<close>, for which \<open>is_valid()\<close> is
  false). Body indices and body node indices are naturals; \<open>world_index()\<close> is 0.
\<close>

type_synonym GeometryId = "nat option"
type_synonym BodyIndex = nat
type_synonym BodyNodeIndex = nat

definition world_index :: BodyIndex where
  "world_index = 0"

datatype ContactModel = kPoint | kHydroelastic | kHydroelasticWithFallback

record ProximityProperties =
  point_stiffness :: "real option"
  hc_dissipation :: "real option"
  friction :: "CoulombFriction option"

type_synonym SceneGraphInspector = "GeometryId \<Rightarrow> ProximityProperties option"

record PenetrationAsPointPair =
  id_A :: GeometryId
  id_B :: GeometryId
  depth :: real
  nhat_BA_W :: Vector3
  p_WCa :: Vector3
  p_WCb :: Vector3

text \<open>
  A hydroelastic contact surface: the two geometry identifiers and its mesh and pressure
  field, which only the traction calculator reads and which stay opaque here.
\<close>

record ContactSurface =
  id_M :: GeometryId
  id_N :: GeometryId
  mesh_and_field :: nat

record QueryObject =
  inspector :: SceneGraphInspector
  ComputePointPairPenetration :: "PenetrationAsPointPair list"
  ComputeContactSurfaces :: "ContactSurface list"
  ComputeContactSurfacesWithFallback :: "ContactSurface list \<times> PenetrationAsPointPair list"

record RigidTransform =
  rotation :: "Vector3 \<times> Vector3 \<times> Vector3"
  translation :: Vector3

text \<open>
  The evaluation context, as far as the contact computations read it: the value of the
  geometry query input port (\<open>None\<close> when the port has no value) and the position and
  velocity kinematics caches, indexed by body node.
\<close>

record Context =
  geometry_query_input_port :: "QueryObject option"
  get_X_WB :: "BodyNodeIndex \<Rightarrow> RigidTransform"
  get_V_WB :: "BodyNodeIndex \<Rightarrow> SpatialVelocity"

record MultibodyPlant =
  num_bodies :: nat
  num_collision_geometries :: nat
  geometry_id_to_body_index :: "nat \<rightharpoonup> BodyIndex"
  node_index :: "BodyIndex \<Rightarrow> BodyNodeIndex"
  contact_model :: ContactModel
  geometry_stiffness :: real
  dissipation :: real
  friction_model :: StribeckModel
  is_discrete :: bool

record PointPairContactInfo =
  bodyA_index :: BodyIndex
  bodyB_index :: BodyIndex
  contact_force :: Vector3
  contact_point :: Vector3
  vn_reported :: real
  slip_speed :: real
  point_pair :: PenetrationAsPointPair

record HydroelasticContactInfo =
  contact_surface :: ContactSurface
  F_Ac_W :: SpatialForce
  quadrature_point_data :: "real list"

record ContactResults =
  point_pair_contact_info :: "PointPairContactInfo list"
  hydroelastic_contact_info :: "HydroelasticContactInfo list"

record HydroelasticContactInfoAndBodySpatialForces =
  F_BBo_W_array :: "SpatialForce list"
  contact_info :: "HydroelasticContactInfo list"

record TractionData =
  X_WA :: RigidTransform
  X_WB :: RigidTransform
  V_WA :: SpatialVelocity
  V_WB :: SpatialVelocity
  surface :: ContactSurface

text \<open>
  Functions of this repository that the plant calls and whose source is missing. They are
  parameters of the model: the friction combination law, the combined Hunt and Crossley
  dissipation of the hydroelastic engine, and the two operations of the hydroelastic
  traction calculator.
\<close>

record Collaborators =
  CalcContactFrictionFromSurfaceProperties ::
    "CoulombFriction \<Rightarrow> CoulombFriction \<Rightarrow> CoulombFriction"
  CalcCombinedDissipation :: "GeometryId \<Rightarrow> GeometryId \<Rightarrow> SceneGraphInspector \<Rightarrow> real"
  ComputeSpatialForcesAtCentroidFromHydroelasticModel ::
    "TractionData \<Rightarrow> real \<Rightarrow> real \<Rightarrow> real list \<times> SpatialForce"
  ShiftSpatialForcesAtCentroidToBodyOrigins ::
    "TractionData \<Rightarrow> SpatialForce \<Rightarrow> SpatialForce \<times> SpatialForce"

definition bind_err :: "error + 'a \<Rightarrow> ('a \<Rightarrow> error + 'b) \<Rightarrow> error + 'b" where
  "bind_err m f = (case m of Inl e \<Rightarrow> Inl e | Inr x \<Rightarrow> f x)"

text \<open>\<open>std::vector::at\<close> followed by \<open>+=\<close>: throws when the index is out of range.\<close>

definition at_add :: "SpatialForce list \<Rightarrow> nat \<Rightarrow> SpatialForce \<Rightarrow> error + SpatialForce list" where
  "at_add F i G = (if i < length F then Inr (F[i := sf_add (F ! i) G]) else Inl OutOfRange)"

definition EvalGeometryQueryInput :: "Context \<Rightarrow> error + QueryObject" where
  "EvalGeometryQueryInput context =
     (case geometry_query_input_port context of
        None \<Rightarrow> Inl (LogicError ''The provided context doesn't show a connection for the plant's query input port'')
      | Some query_object \<Rightarrow> Inr query_object)"

definition IsValidGeometryInput :: "MultibodyPlant \<Rightarrow> Context \<Rightarrow> bool" where
  "IsValidGeometryInput plant context =
     (num_collision_geometries plant = 0 \<or> geometry_query_input_port context \<noteq> None)"

definition ValidateGeometryInput :: "MultibodyPlant \<Rightarrow> Context \<Rightarrow> error + unit" where
  "ValidateGeometryInput plant context =
     (if \<not> IsValidGeometryInput plant context
      then Inl (LogicError ''The provided context doesn't show a connection for the plant's query input port'')
      else Inr ())"


definition GetCoulombFriction ::
  "GeometryId \<Rightarrow> SceneGraphInspector \<Rightarrow> error + CoulombFriction" where
  "GetCoulombFriction gid insp =
     (case insp gid of
        None \<Rightarrow> Inl DemandFailed
      | Some prop \<Rightarrow>
          (case friction prop of None \<Rightarrow> Inl ThrowUnless | Some f \<Rightarrow> Inr f))"

definition FindBodyByGeometryId :: "MultibodyPlant \<Rightarrow> GeometryId \<Rightarrow> error + BodyIndex" where
  "FindBodyByGeometryId plant geometry_id =
     (case geometry_id of
        None \<Rightarrow> Inl (LogicError ''MultibodyPlant received contact results for a null GeometryId'')
      | Some g \<Rightarrow>
          (case geometry_id_to_body_index plant g of
             Some b \<Rightarrow> Inr b
           | None \<Rightarrow> Inl (LogicError ''MultibodyPlant received contact results for a GeometryId not known to this plant'')))"


definition CalcPointPairPenetrations ::
  "MultibodyPlant \<Rightarrow> Context \<Rightarrow> error + PenetrationAsPointPair list" where
  "CalcPointPairPenetrations plant context =
     (if num_collision_geometries plant > 0 then
        bind_err (EvalGeometryQueryInput context)
          (\<lambda>query_object. Inr (ComputePointPairPenetration query_object))
      else Inr [])"

section \<open>Continuous point contact\<close>









section \<open>Contact force accumulation\<close>

text \<open>
  One iteration of the loop of \<open>CalcAndAddContactForcesByPenaltyMethod\<close>.
\<close>

definition AddPenaltyForcesOfPair ::
  "MultibodyPlant \<Rightarrow> Context \<Rightarrow> PointPairContactInfo \<Rightarrow> SpatialForce list \<Rightarrow>
   error + SpatialForce list" where
  "AddPenaltyForcesOfPair plant context info F =
     (let pair = point_pair info in
      bind_err (FindBodyByGeometryId plant (id_A pair)) (\<lambda>bodyA.
      bind_err (FindBodyByGeometryId plant (id_B pair)) (\<lambda>bodyB.
        let bodyA_node_index = node_index plant bodyA;
            bodyB_node_index = node_index plant bodyB;
            p_WC = contact_point info;
            p_WAo = translation (get_X_WB context bodyA_node_index);
            p_CoAo_W = vsub p_WAo p_WC;
            p_WBo = translation (get_X_WB context bodyB_node_index);
            p_CoBo_W = vsub p_WBo p_WC;
            f_Bc_W = contact_force info;
            F_AC_W = \<lparr>rotational = vzero, translational = vneg f_Bc_W\<rparr>
        in
        bind_err (if bodyA \<noteq> world_index
                  then at_add F bodyA_node_index (Shift_force F_AC_W p_CoAo_W)
                  else Inr F) (\<lambda>F1.
          if bodyB \<noteq> world_index
          then at_add F1 bodyB_node_index (sf_neg (Shift_force F_AC_W p_CoBo_W))
          else Inr F1))))"

fun AddPenaltyForces ::
  "MultibodyPlant \<Rightarrow> Context \<Rightarrow> PointPairContactInfo list \<Rightarrow> SpatialForce list \<Rightarrow>
   error + SpatialForce list" where
  "AddPenaltyForces plant context [] F = Inr F"
| "AddPenaltyForces plant context (info # infos) F =
     bind_err (AddPenaltyForcesOfPair plant context info F)
       (AddPenaltyForces plant context infos)"

text \<open>
  \<open>MultibodyPlant::CalcAndAddContactForcesByPenaltyMethod\<close>. The argument
  \<open>eval_contact_results\<close> is the outcome of \<open>EvalContactResults(context)\<close>, a cache
  evaluation declared in the missing header.
\<close>

definition CalcAndAddContactForcesByPenaltyMethod ::
  "MultibodyPlant \<Rightarrow> Context \<Rightarrow> (error + ContactResults) \<Rightarrow> SpatialForce list \<Rightarrow>
   error + SpatialForce list" where
  "CalcAndAddContactForcesByPenaltyMethod plant context eval_contact_results F =
     (if length F \<noteq> num_bodies plant then Inl DemandFailed
      else if num_collision_geometries plant = 0 then Inr F
      else bind_err eval_contact_results (\<lambda>contact_results.
             AddPenaltyForces plant context (point_pair_contact_info contact_results) F))"

text \<open>
  One iteration of the loop of \<open>CalcHydroelasticContactForces\<close> up to the combined
  friction: the properties fetched for the two geometries of the surface and the dynamic
  friction coefficient handed to the traction calculator.
\<close>

definition SurfaceDynamicFriction ::
  "Collaborators \<Rightarrow> SceneGraphInspector \<Rightarrow> ContactSurface \<Rightarrow> error + real" where
  "SurfaceDynamicFriction ext insp s =
     (let geometryM_id = id_M s;
          geometryN_id = id_N s;
          propM = insp geometryM_id;
          propN = insp geometryM_id
      in case propM of None \<Rightarrow> Inl DemandFailed | Some pM \<Rightarrow>
         (case propN of None \<Rightarrow> Inl DemandFailed | Some pN \<Rightarrow>
         (case friction pM of None \<Rightarrow> Inl ThrowUnless | Some geometryM_friction \<Rightarrow>
         (case friction pN of None \<Rightarrow> Inl ThrowUnless | Some geometryN_friction \<Rightarrow>
            (let combined_friction =
                   CalcContactFrictionFromSurfaceProperties ext
                     geometryM_friction geometryN_friction
             in Inr (dynamic_friction combined_friction))))))"

text \<open>The rest of the iteration: traction, shift to the body origins, accumulation.\<close>

definition AddHydroelasticForcesOfSurface ::
  "MultibodyPlant \<Rightarrow> Collaborators \<Rightarrow> Context \<Rightarrow> SceneGraphInspector \<Rightarrow> ContactSurface \<Rightarrow>
   HydroelasticContactInfoAndBodySpatialForces \<Rightarrow>
   error + HydroelasticContactInfoAndBodySpatialForces" where
  "AddHydroelasticForcesOfSurface plant ext context insp s acc =
     bind_err (SurfaceDynamicFriction ext insp s) (\<lambda>dynamic_friction.
     bind_err (FindBodyByGeometryId plant (id_M s)) (\<lambda>bodyA.
     bind_err (FindBodyByGeometryId plant (id_N s)) (\<lambda>bodyB.
       let data = \<lparr>X_WA = get_X_WB context (node_index plant bodyA),
                   X_WB = get_X_WB context (node_index plant bodyB),
                   V_WA = get_V_WB context (node_index plant bodyA),
                   V_WB = get_V_WB context (node_index plant bodyB),
                   surface = s\<rparr>;
           dissipation = CalcCombinedDissipation ext (id_M s) (id_N s) insp;
           (traction_output, F_Ac) =
             ComputeSpatialForcesAtCentroidFromHydroelasticModel ext data dissipation
               dynamic_friction;
           (F_Ao_W, F_Bo_W) = ShiftSpatialForcesAtCentroidToBodyOrigins ext data F_Ac
       in
       bind_err (if bodyA \<noteq> world_index
                 then at_add (F_BBo_W_array acc) (node_index plant bodyA) F_Ao_W
                 else Inr (F_BBo_W_array acc)) (\<lambda>F1.
       bind_err (if bodyB \<noteq> world_index
                 then at_add F1 (node_index plant bodyB) F_Bo_W
                 else Inr F1) (\<lambda>F2.
         Inr \<lparr>F_BBo_W_array = F2,
              contact_info = contact_info acc @
                [\<lparr>contact_surface = s, F_Ac_W = F_Ac,
                  quadrature_point_data = traction_output\<rparr>]\<rparr>)))))"

fun AddHydroelasticForces ::
  "MultibodyPlant \<Rightarrow> Collaborators \<Rightarrow> Context \<Rightarrow> SceneGraphInspector \<Rightarrow> ContactSurface list \<Rightarrow>
   HydroelasticContactInfoAndBodySpatialForces \<Rightarrow>
   error + HydroelasticContactInfoAndBodySpatialForces" where
  "AddHydroelasticForces plant ext context insp [] acc = Inr acc"
| "AddHydroelasticForces plant ext context insp (s # ss) acc =
     bind_err (AddHydroelasticForcesOfSurface plant ext context insp s acc)
       (AddHydroelasticForces plant ext context insp ss)"

text \<open>
  \<open>MultibodyPlant::CalcHydroelasticContactForces\<close> for a numeric scalar. The argument
  \<open>eval_contact_surfaces\<close> is the outcome of \<open>EvalContactSurfaces(context)\<close>; the last
  argument is the cache value the function overwrites.
\<close>

definition CalcHydroelasticContactForces ::
  "MultibodyPlant \<Rightarrow> Collaborators \<Rightarrow> Context \<Rightarrow> (error + ContactSurface list) \<Rightarrow>
   HydroelasticContactInfoAndBodySpatialForces \<Rightarrow>
   error + HydroelasticContactInfoAndBodySpatialForces" where
  "CalcHydroelasticContactForces plant ext context eval_contact_surfaces
       contact_info_and_body_forces =
     (if length (F_BBo_W_array contact_info_and_body_forces) \<noteq> num_bodies plant
      then Inl DemandFailed
      else
        let zeroed = contact_info_and_body_forces
                       \<lparr>F_BBo_W_array := replicate (num_bodies plant) SpatialForce_Zero\<rparr>
        in if num_collision_geometries plant = 0 then Inr zeroed
           else bind_err eval_contact_surfaces (\<lambda>all_surfaces.
                bind_err (EvalGeometryQueryInput context) (\<lambda>query_object.
                  AddHydroelasticForces plant ext context (inspector query_object) all_surfaces
                    (zeroed\<lparr>contact_info := []\<rparr>))))"

text \<open>
  \<open>MultibodyPlant::CalcAndAddSpatialContactForcesContinuous\<close>. The hydroelastic forces
  come from the cache entry computed by \<open>CalcHydroelasticContactForces\<close>, whose stored
  value is \<open>hydro_cache\<close>.
\<close>

definition CalcAndAddSpatialContactForcesContinuous ::
  "MultibodyPlant \<Rightarrow> Collaborators \<Rightarrow> Context \<Rightarrow> (error + ContactResults) \<Rightarrow>
   (error + ContactSurface list) \<Rightarrow> HydroelasticContactInfoAndBodySpatialForces \<Rightarrow>
   SpatialForce list \<Rightarrow> error + SpatialForce list" where
  "CalcAndAddSpatialContactForcesContinuous plant ext context eval_contact_results
       eval_contact_surfaces hydro_cache F =
     (if length F \<noteq> num_bodies plant then Inl DemandFailed
      else if is_discrete plant then Inl DemandFailed
      else if num_collision_geometries plant = 0 then Inr F
      else case contact_model plant of
        kPoint \<Rightarrow> CalcAndAddContactForcesByPenaltyMethod plant context eval_contact_results F
      | kHydroelastic \<Rightarrow>
          bind_err (CalcHydroelasticContactForces plant ext context eval_contact_surfaces
                      hydro_cache)
            (\<lambda>hydro. Inr (F_BBo_W_array hydro))
      | kHydroelasticWithFallback \<Rightarrow>
          bind_err (CalcAndAddContactForcesByPenaltyMethod plant context eval_contact_results F)
            (\<lambda>F1.
          bind_err (CalcHydroelasticContactForces plant ext context eval_contact_surfaces
                      hydro_cache)
            (\<lambda>hydro.
             let Fhydro_BBo_W_all = F_BBo_W_array hydro
             in if length F1 \<noteq> length Fhydro_BBo_W_all then Inl DemandFailed
                else Inr (map2 sf_add F1 Fhydro_BBo_W_all))))"

text \<open>\<open>MultibodyPlant::CalcSpatialContactForcesContinuous\<close>.\<close>

definition CalcSpatialContactForcesContinuous ::
  "MultibodyPlant \<Rightarrow> Collaborators \<Rightarrow> Context \<Rightarrow> (error + ContactResults) \<Rightarrow>
   (error + ContactSurface list) \<Rightarrow> HydroelasticContactInfoAndBodySpatialForces \<Rightarrow>
   SpatialForce list \<Rightarrow> error + SpatialForce list" where
  "CalcSpatialContactForcesContinuous plant ext context eval_contact_results
       eval_contact_surfaces hydro_cache F =
     (if length F \<noteq> num_bodies plant then Inl DemandFailed
      else if is_discrete plant then Inl DemandFailed
      else CalcAndAddSpatialContactForcesContinuous plant ext context eval_contact_results
             eval_contact_surfaces hydro_cache (map (\<lambda>_. SpatialForce_Zero) F))"

section \<open>Discrete step\<close>















section \<open>Algebraic loop guard\<close>

text \<open>
  What evaluating the body of \<open>CalcNonContactForces\<close> does after the guard is taken: it
  completes, or it throws, or pulling an input port leads an upstream system to evaluate
  the non-contact forces of the same context again (an algebraic loop); the nested
  evaluation has a body of its own.
\<close>

datatype body_eval =
    Completes
  | Throws error
  | Reenters body_eval

definition algebraic_loop_message :: string where
  "algebraic_loop_message = ''Algebraic loop detected.''"

text \<open>
  \<open>MultibodyPlant::ThrowIfNonContactForceInProgress\<close> on the cached marker: throws when the
  marker is set; otherwise sets it and hands out the scope guard, which the caller runs
  when it leaves its scope.
\<close>

definition ThrowIfNonContactForceInProgress :: "bool \<Rightarrow> error + bool" where
  "ThrowIfNonContactForceInProgress evaluation_in_progress =
     (if evaluation_in_progress then Inl (RuntimeError algebraic_loop_message)
      else Inr True)"

text \<open>
  \<open>MultibodyPlant::CalcNonContactForces\<close>, as far as the guard is concerned. It returns
  the outcome and the marker on exit. The first argument is the outcome of the demand on
  the size of \<open>forces\<close>, checked before the guard is taken. When the guard has been taken,
  its destructor resets the marker on the normal and on the exceptional exit alike; when
  taking it throws, no guard exists and the marker stays as it was.
\<close>

fun CalcNonContactForces :: "bool \<Rightarrow> body_eval \<Rightarrow> bool \<Rightarrow> (error + unit) \<times> bool" where
  "CalcNonContactForces has_right_size body evaluation_in_progress =
     (if \<not> has_right_size then (Inl DemandFailed, evaluation_in_progress)
      else case ThrowIfNonContactForceInProgress evaluation_in_progress of
        Inl e \<Rightarrow> (Inl e, evaluation_in_progress)
      | Inr in_progress \<Rightarrow>
          (let outcome =
                 (case body of
                    Completes \<Rightarrow> Inr ()
                  | Throws e \<Rightarrow> Inl e
                  | Reenters inner \<Rightarrow>
                      fst (CalcNonContactForces has_right_size inner in_progress))
           in (outcome, False)))"

section \<open>Doubles with infinities and NaN\<close>

text \<open>
  Where a claim is about infinite or unspecified (NaN) values, a \<open>double\<close> is a finite
  real, an infinity or NaN, with the IEEE rules for these special values; rounding,
  overflow and the sign of zero are not modelled.
\<close>

datatype edouble = Fin real | PInf | MInf | NaN

fun isnan :: "edouble \<Rightarrow> bool" where
  "isnan NaN = True"
| "isnan _ = False"

fun isinf :: "edouble \<Rightarrow> bool" where
  "isinf PInf = True"
| "isinf MInf = True"
| "isinf _ = False"

fun ed_neg :: "edouble \<Rightarrow> edouble" where
  "ed_neg (Fin a) = Fin (- a)"
| "ed_neg PInf = MInf"
| "ed_neg MInf = PInf"
| "ed_neg NaN = NaN"

definition signed_inf :: "real \<Rightarrow> edouble" where
  "signed_inf a = (if a > 0 then PInf else if a < 0 then MInf else NaN)"

fun ed_mult :: "edouble \<Rightarrow> edouble \<Rightarrow> edouble" where
  "ed_mult NaN _ = NaN"
| "ed_mult _ NaN = NaN"
| "ed_mult (Fin a) (Fin b) = Fin (a * b)"
| "ed_mult (Fin a) PInf = signed_inf a"
| "ed_mult (Fin a) MInf = signed_inf (- a)"
| "ed_mult PInf (Fin b) = signed_inf b"
| "ed_mult MInf (Fin b) = signed_inf (- b)"
| "ed_mult PInf PInf = PInf"
| "ed_mult PInf MInf = MInf"
| "ed_mult MInf PInf = MInf"
| "ed_mult MInf MInf = PInf"

fun ed_div :: "edouble \<Rightarrow> edouble \<Rightarrow> edouble" where
  "ed_div NaN _ = NaN"
| "ed_div _ NaN = NaN"
| "ed_div (Fin a) (Fin b) = (if b = 0 then signed_inf a else Fin (a / b))"
| "ed_div (Fin a) PInf = Fin 0"
| "ed_div (Fin a) MInf = Fin 0"
| "ed_div PInf (Fin b) = (if b < 0 then MInf else PInf)"
| "ed_div MInf (Fin b) = (if b < 0 then PInf else MInf)"
| "ed_div PInf PInf = NaN"
| "ed_div PInf MInf = NaN"
| "ed_div MInf PInf = NaN"
| "ed_div MInf MInf = NaN"

fun ed_sqrt :: "edouble \<Rightarrow> edouble" where
  "ed_sqrt (Fin a) = (if a < 0 then NaN else Fin (sqrt a))"
| "ed_sqrt PInf = PInf"
| "ed_sqrt MInf = NaN"
| "ed_sqrt NaN = NaN"

fun ed_less :: "edouble \<Rightarrow> edouble \<Rightarrow> bool" where
  "ed_less NaN _ = False"
| "ed_less _ NaN = False"
| "ed_less (Fin a) (Fin b) = (a < b)"
| "ed_less (Fin a) PInf = True"
| "ed_less (Fin a) MInf = False"
| "ed_less PInf _ = False"
| "ed_less MInf (Fin b) = True"
| "ed_less MInf PInf = True"
| "ed_less MInf MInf = False"

definition hasNaN :: "edouble list \<Rightarrow> bool" where
  "hasNaN u = (\<exists>x \<in> set u. isnan x)"

section \<open>Joint limit penalty parameters\<close>

text \<open>\<open>JointLimitsPenaltyParametersEstimator::CalcCriticallyDampedHarmonicOscillatorParameters\<close>.\<close>

definition CalcCriticallyDampedHarmonicOscillatorParameters ::
  "edouble \<Rightarrow> edouble \<Rightarrow> edouble \<times> edouble" where
  "CalcCriticallyDampedHarmonicOscillatorParameters period inertia =
     (let damping_ratio = Fin 1;
          omega0 = ed_div (ed_mult (Fin 2) (Fin pi)) period;
          stiffness = ed_mult (ed_mult inertia omega0) omega0;
          damping = ed_mult (ed_mult (Fin 2) damping_ratio) (ed_sqrt (ed_mult inertia stiffness))
      in (stiffness, damping))"

text \<open>\<open>JointLimitsPenaltyParametersEstimator::PickLessStiffPenaltyParameters\<close>.\<close>

definition PickLessStiffPenaltyParameters ::
  "edouble \<times> edouble \<Rightarrow> edouble \<times> edouble \<Rightarrow> edouble \<times> edouble" where
  "PickLessStiffPenaltyParameters params1 params2 =
     (let stiffness1 = fst params1;
          stiffness2 = fst params2
      in if ed_less stiffness1 stiffness2 then params1 else params2)"

record Body =
  index :: BodyIndex
  default_mass :: edouble

record PrismaticJoint =
  parent_body :: Body
  child_body :: Body

text \<open>\<open>JointLimitsPenaltyParametersEstimator::CalcPrismaticJointPenaltyParameters\<close>.\<close>

definition CalcPrismaticJointPenaltyParameters ::
  "PrismaticJoint \<Rightarrow> edouble \<Rightarrow> edouble \<times> edouble" where
  "CalcPrismaticJointPenaltyParameters joint numerical_time_scale =
     (let parent_mass = (if index (parent_body joint) = world_index then PInf
                         else default_mass (parent_body joint));
          parent_params =
            CalcCriticallyDampedHarmonicOscillatorParameters numerical_time_scale parent_mass;
          child_mass = (if index (child_body joint) = world_index then PInf
                        else default_mass (child_body joint));
          child_params =
            CalcCriticallyDampedHarmonicOscillatorParameters numerical_time_scale child_mass
      in PickLessStiffPenaltyParameters parent_params child_params)"

text \<open>
  A frame of a revolute joint: the body it is attached to, whether that body is a
  \<open>RigidBody\<close>, and the rotational inertia of the body about the joint axis through the
  frame origin, \<open>I_a\<close>, which the spatial inertia algebra (source missing) computes from
  the body's default spatial inertia.
\<close>

record Frame =
  body :: Body
  is_RigidBody :: bool
  I_a :: edouble

record RevoluteJoint =
  revolute_parent_body :: Body
  revolute_child_body :: Body
  frame_on_parent :: Frame
  frame_on_child :: Frame

text \<open>The lambda \<open>CalcRotationalInertiaAboutAxis\<close> of the revolute estimator.\<close>

definition CalcRotationalInertiaAboutAxis :: "Frame \<Rightarrow> error + edouble" where
  "CalcRotationalInertiaAboutAxis frame =
     (if \<not> is_RigidBody frame then Inl ThrowUnless
      else if isnan (default_mass (body frame)) then Inr PInf
      else Inr (I_a frame))"

text \<open>\<open>JointLimitsPenaltyParametersEstimator::CalcRevoluteJointPenaltyParameters\<close>.\<close>

definition CalcRevoluteJointPenaltyParameters ::
  "RevoluteJoint \<Rightarrow> edouble \<Rightarrow> error + edouble \<times> edouble" where
  "CalcRevoluteJointPenaltyParameters joint numerical_time_scale =
     bind_err (if index (revolute_parent_body joint) = world_index then Inr PInf
               else CalcRotationalInertiaAboutAxis (frame_on_parent joint)) (\<lambda>I_Pa.
       let parent_params =
             CalcCriticallyDampedHarmonicOscillatorParameters numerical_time_scale I_Pa
       in
     bind_err (if index (revolute_child_body joint) = world_index then Inr PInf
               else CalcRotationalInertiaAboutAxis (frame_on_child joint)) (\<lambda>I_Ca.
       let child_params =
             CalcCriticallyDampedHarmonicOscillatorParameters numerical_time_scale I_Ca
       in Inr (PickLessStiffPenaltyParameters parent_params child_params)))"

section \<open>Actuation input\<close>

type_synonym ModelInstanceIndex = nat

text \<open>
  The plant and the context as \<open>AssembleActuationInput\<close> reads them. A port maps to
  \<open>None\<close> when it has no value in the context. The per-instance ports are declared with
  the size of the instance's actuated degrees of freedom.
\<close>

record ActuationPlant =
  num_model_instances :: nat
  num_actuated_dofs :: "ModelInstanceIndex \<Rightarrow> nat"
  GetModelInstanceName :: "ModelInstanceIndex \<Rightarrow> string"

record ActuationContext =
  actuation_port :: "edouble list option"
  instance_actuation_ports :: "ModelInstanceIndex \<Rightarrow> edouble list option"

definition both_connected_message :: "string \<Rightarrow> string" where
  "both_connected_message name =
     ''Actuation input port for model instance '' @ name @
     '' and the actuation port for all instances are both connected. At most one of these ports should be connected.''"

definition must_be_connected_message :: "string \<Rightarrow> string" where
  "must_be_connected_message name =
     ''Actuation input port for model instance '' @ name @ '' must be connected.''"

definition contains_NaN_message :: "string \<Rightarrow> string" where
  "contains_NaN_message name =
     ''Actuation input port for model instance '' @ name @ '' contains NaN.''"

text \<open>The first loop: no per-instance port may have a value.\<close>

fun CheckNoInstancePort ::
  "ActuationPlant \<Rightarrow> ActuationContext \<Rightarrow> ModelInstanceIndex list \<Rightarrow> error + unit" where
  "CheckNoInstancePort plant context [] = Inr ()"
| "CheckNoInstancePort plant context (model_instance_index # rest) =
     (if instance_actuation_ports context model_instance_index \<noteq> None
      then Inl (LogicError
                  (both_connected_message (GetModelInstanceName plant model_instance_index)))
      else CheckNoInstancePort plant context rest)"

text \<open>
  The second loop: the segments of the actuation vector are written one after the other
  from offset 0, so the vector assembled so far is the concatenation of the instance
  inputs.
\<close>

fun AssembleInstances ::
  "ActuationPlant \<Rightarrow> ActuationContext \<Rightarrow> ModelInstanceIndex list \<Rightarrow> edouble list \<Rightarrow>
   error + edouble list" where
  "AssembleInstances plant context [] actuation_input = Inr actuation_input"
| "AssembleInstances plant context (model_instance_index # rest) actuation_input =
     (let instance_num_dofs = num_actuated_dofs plant model_instance_index
      in if instance_num_dofs = 0 then AssembleInstances plant context rest actuation_input
         else case instance_actuation_ports context model_instance_index of
           None \<Rightarrow>
             Inl (LogicError
                    (must_be_connected_message (GetModelInstanceName plant model_instance_index)))
         | Some u_instance \<Rightarrow>
             if hasNaN u_instance
             then Inl (RuntimeError
                         (contains_NaN_message (GetModelInstanceName plant model_instance_index)))
             else AssembleInstances plant context rest (actuation_input @ u_instance))"

text \<open>
  \<open>MultibodyPlant::AssembleActuationInput\<close>. Both loops start at the first non-world
  model instance, index 1.
\<close>

definition AssembleActuationInput ::
  "ActuationPlant \<Rightarrow> ActuationContext \<Rightarrow> error + edouble list" where
  "AssembleActuationInput plant context =
     (let first_non_world_index = 1
      in case actuation_port context of
        Some u \<Rightarrow>
          bind_err (CheckNoInstancePort plant context
                      [first_non_world_index ..< num_model_instances plant]) (\<lambda>_.
            if hasNaN u
            then Inl (RuntimeError
                        ''Detected NaN in the actuation input port for all instances.'')
            else Inr u)
      | None \<Rightarrow>
          AssembleInstances plant context
            [first_non_world_index ..< num_model_instances plant] [])"

section \<open>A concrete scene\<close>

text \<open>
  A unit sphere (geometry 1, body 1) resting on the ground (geometry 2, the world body)
  with a penetration of one centimetre; the normal points from the ground into the sphere.
  Both geometries use the plant's default stiffness 2 and dissipation 2, which combine to
  \<open>k = 1\<close> and \<open>d = 2\<close>. The sphere moves along the normal, towards the ground in one
  context and away from it in the other.
\<close>

definition ex_plant :: MultibodyPlant where
  "ex_plant = \<lparr>num_bodies = 2, num_collision_geometries = 2,
     geometry_id_to_body_index = [1 \<mapsto> 1, 2 \<mapsto> 0],
     node_index = (\<lambda>b. b), contact_model = kPoint,
     geometry_stiffness = 2, dissipation = 2,
     friction_model = set_stiction_tolerance (1 / 1000), is_discrete = False\<rparr>"

definition ex_props :: ProximityProperties where
  "ex_props = \<lparr>point_stiffness = None, hc_dissipation = Some 2,
     friction = Some \<lparr>static_friction = 1, dynamic_friction = 1 / 2\<rparr>\<rparr>"

definition ex_pair :: PenetrationAsPointPair where
  "ex_pair = \<lparr>id_A = Some 1, id_B = Some 2, depth = 1 / 100, nhat_BA_W = (0, 0, 1),
     p_WCa = (0, 0, - 1 / 100), p_WCb = (0, 0, 0)\<rparr>"

definition ex_query :: QueryObject where
  "ex_query = \<lparr>inspector = (\<lambda>g. if g = Some 1 \<or> g = Some 2 then Some ex_props else None),
     ComputePointPairPenetration = [ex_pair], ComputeContactSurfaces = [],
     ComputeContactSurfacesWithFallback = ([], [ex_pair])\<rparr>"

definition ex_pose :: "BodyNodeIndex \<Rightarrow> RigidTransform" where
  "ex_pose n = \<lparr>rotation = ((1, 0, 0), (0, 1, 0), (0, 0, 1)),
     translation = (if n = 1 then (0, 0, 99 / 100) else (0, 0, 0))\<rparr>"

definition ex_context :: "real \<Rightarrow> Context" where
  "ex_context vz = \<lparr>geometry_query_input_port = Some ex_query, get_X_WB = ex_pose,
     get_V_WB = (\<lambda>n. \<lparr>rotational = vzero,
                           translational = (if n = 1 then (0, 0, vz) else (0, 0, 0))\<rparr>)\<rparr>"

definition ex_context_approaching :: Context where
  "ex_context_approaching = ex_context (- 1)"


text \<open>
  Stand-ins for the missing collaborators: friction coefficients combine as
  \<open>2ab/(a+b)\<close>, and the traction calculator returns a force along x whose size is the
  dynamic friction coefficient it was given.
\<close>

definition ex_ext :: Collaborators where
  "ex_ext = \<lparr>
     CalcContactFrictionFromSurfaceProperties = (\<lambda>a b.
       \<lparr>static_friction = 2 * static_friction a * static_friction b
                            / (static_friction a + static_friction b),
        dynamic_friction = 2 * dynamic_friction a * dynamic_friction b
                            / (dynamic_friction a + dynamic_friction b)\<rparr>),
     CalcCombinedDissipation = (\<lambda>m n insp. 0),
     ComputeSpatialForcesAtCentroidFromHydroelasticModel = (\<lambda>data dissipation mu.
       ([], \<lparr>rotational = vzero, translational = (mu, 0, 0)\<rparr>)),
     ShiftSpatialForcesAtCentroidToBodyOrigins = (\<lambda>data F. (F, sf_neg F))\<rparr>"


text \<open>
  A hydroelastic surface between the sphere (M) and the ground (N), with an inspector in
  which the two geometries have different friction coefficients.
\<close>

definition ex_inspector_MN :: SceneGraphInspector where
  "ex_inspector_MN =
     (\<lambda>g. if g = Some 1 then
             Some \<lparr>point_stiffness = None, hc_dissipation = None,
                   friction = Some \<lparr>static_friction = 1, dynamic_friction = 1 / 2\<rparr>\<rparr>
           else if g = Some 2 then
             Some \<lparr>point_stiffness = None, hc_dissipation = None,
                   friction = Some \<lparr>static_friction = 2, dynamic_friction = 1\<rparr>\<rparr>
           else None)"

definition ex_surface :: ContactSurface where
  "ex_surface = \<lparr>id_M = Some 1, id_N = Some 2, mesh_and_field = 0\<rparr>"

definition ex_context_MN :: Context where
  "ex_context_MN = (ex_context 0)
     \<lparr>geometry_query_input_port := Some (ex_query\<lparr>inspector := ex_inspector_MN\<rparr>)\<rparr>"

definition ex_hydro_cache :: HydroelasticContactInfoAndBodySpatialForces where
  "ex_hydro_cache = \<lparr>F_BBo_W_array = [SpatialForce_Zero, SpatialForce_Zero], contact_info = []\<rparr>"

text \<open>Two actuated model instances after the world, with no actuation port connected.\<close>

definition ex_actuation_plant :: ActuationPlant where
  "ex_actuation_plant = \<lparr>num_model_instances = 3,
     num_actuated_dofs = (\<lambda>i. if i = 0 then 0 else 1),
     GetModelInstanceName =
       (\<lambda>i. if i = 0 then ''WorldModelInstance'' else if i = 1 then ''arm'' else ''gripper'')\<rparr>"

definition ex_unconnected :: ActuationContext where
  "ex_unconnected = \<lparr>actuation_port = None, instance_actuation_ports = (\<lambda>i. None)\<rparr>"

definition ex_both_connected :: ActuationContext where
  "ex_both_connected = \<lparr>actuation_port = Some [Fin 0, Fin 0],
     instance_actuation_ports = (\<lambda>i. if i = 1 then Some [Fin 0] else None)\<rparr>"





text \<open>A prismatic and a revolute joint from the world to a body of unspecified mass.\<close>

definition ex_world_body :: Body where
  "ex_world_body = \<lparr>index = 0, default_mass = Fin 0\<rparr>"

definition ex_massless_body :: Body where
  "ex_massless_body = \<lparr>index = 1, default_mass = NaN\<rparr>"

definition ex_prismatic :: PrismaticJoint where
  "ex_prismatic = \<lparr>parent_body = ex_world_body, child_body = ex_massless_body\<rparr>"

definition ex_revolute :: RevoluteJoint where
  "ex_revolute = \<lparr>revolute_parent_body = ex_world_body, revolute_child_body = ex_massless_body,
     frame_on_parent = \<lparr>body = ex_world_body, is_RigidBody = True, I_a = Fin 0\<rparr>,
     frame_on_child = \<lparr>body = ex_massless_body, is_RigidBody = True, I_a = NaN\<rparr>\<rparr>"

section \<open>Properties of the joint limit penalty force\<close>

text \<open>
  C5. For limits \<open>lower \<le> upper\<close> and penalty parameters \<open>k \<ge> 0\<close>, \<open>d \<ge> 0\<close>, the joint
  limit penalty force is \<open>0\<close> whenever \<open>lower \<le> q \<le> upper\<close> (so also at \<open>q = lower\<close> and
  at \<open>q = upper\<close>), it is \<open>min(-k*(q-upper) - d*v, 0)\<close> when \<open>q > upper\<close>, and it is
  \<open>max(-k*(q-lower) - d*v, 0)\<close> when \<open>q < lower\<close>.
\<close>

theorem C5_joint_limit_penalty_force:
  assumes "lower \<le> upper" and "0 \<le> k" and "0 \<le> d"
  shows "(lower \<le> q \<and> q \<le> upper \<longrightarrow> CalcPenaltyForce lower upper k d q v = Inr 0)
       \<and> CalcPenaltyForce lower upper k d lower v = Inr 0
       \<and> CalcPenaltyForce lower upper k d upper v = Inr 0
       \<and> (q > upper \<longrightarrow>
            CalcPenaltyForce lower upper k d q v = Inr (min (- k * (q - upper) - d * v) 0))
       \<and> (q < lower \<longrightarrow>
            CalcPenaltyForce lower upper k d q v = Inr (max (- k * (q - lower) - d * v) 0))"
  using assms by (simp add: CalcPenaltyForce_def Let_def)

theorem C5_joint_limit_penalty_force_witness:
  "CalcPenaltyForce (-1) 1 100 10 0 5 = Inr 0
   \<and> CalcPenaltyForce (-1) 1 100 10 (-1) 5 = Inr 0
   \<and> CalcPenaltyForce (-1) 1 100 10 1 5 = Inr 0
   \<and> CalcPenaltyForce (-1) 1 100 10 2 (-20) = Inr 0
   \<and> CalcPenaltyForce (-1) 1 100 10 2 5 = Inr (-150)
   \<and> CalcPenaltyForce (-1) 1 100 10 (-2) 5 = Inr 50"
  using C5_joint_limit_penalty_force [of "-1" 1 100 10 0 5]
        C5_joint_limit_penalty_force [of "-1" 1 100 10 2 "-20"]
        C5_joint_limit_penalty_force [of "-1" 1 100 10 2 5]
        C5_joint_limit_penalty_force [of "-1" 1 100 10 "-2" 5]
  by simp

section \<open>Properties of the Stribeck friction coefficient\<close>

lemma step5_s5: "step5 x = s5 x"
  by (simp add: step5_def s5_def Let_def power3_eq_cube power4_eq_xxxx
      power_numeral_reduce algebra_simps)

lemma step5_0: "step5 0 = 0"
  by (simp add: step5_def)

lemma step5_1: "step5 1 = 1"
  by (simp add: step5_def)

lemma cont_step5: "continuous_on A step5"
  unfolding step5_def Let_def by (intro continuous_intros)

lemma cont_stribeck_profile:
  fixes mus mud :: real
  shows "continuous_on UNIV (\<lambda>v. if v \<ge> 3 then mud
           else if v \<ge> 1 then mus - (mus - mud) * step5 ((v - 1) / 2) else mus * step5 v)"
proof -
  let ?mid = "\<lambda>v::real. mus - (mus - mud) * step5 ((v - 1) / 2)"
  let ?low = "\<lambda>v::real. mus * step5 v"
  let ?inner = "\<lambda>v::real. if v \<ge> 1 then ?mid v else ?low v"
  have s5c: "\<And>A f. continuous_on A f \<Longrightarrow> continuous_on A (\<lambda>v::real. step5 (f v))"
    using continuous_on_compose2 [OF cont_step5 [of UNIV]] by blast
  have mid: "continuous_on A ?mid" for A
    by (intro continuous_intros s5c) simp
  have low: "continuous_on A ?low" for A
    by (intro continuous_intros s5c)
  have "continuous_on ({1..} \<union> {..1}) ?inner"
    by (rule continuous_on_If) (auto simp: mid low step5_0 step5_1)
  moreover have "{1..} \<union> {..1} = (UNIV :: real set)" by auto
  ultimately have inner: "continuous_on UNIV ?inner" by simp
  have "continuous_on ({3..} \<union> {..3}) (\<lambda>v::real. if v \<ge> 3 then mud else ?inner v)"
    by (rule continuous_on_If)
       (auto simp: step5_0 step5_1 intro: continuous_on_subset [OF inner])
  moreover have "{3..} \<union> {..3} = (UNIV :: real set)" by auto
  ultimately show ?thesis by simp
qed

lemma cont_ComputeFrictionCoefficient:
  "continuous_on UNIV (\<lambda>s. ComputeFrictionCoefficient m s fr)"
proof -
  have "continuous_on UNIV (\<lambda>s::real. s * inv_v_stiction_tolerance m)"
    by (intro continuous_intros)
  from continuous_on_compose2 [OF cont_stribeck_profile this]
  show ?thesis
    by (simp add: ComputeFrictionCoefficient_def Let_def)
qed

text \<open>
  C4. For slip speed \<open>\<ge> 0\<close>, coefficients \<open>\<mu>\<^sub>s \<ge> \<mu>\<^sub>d \<ge> 0\<close> and
  \<open>v = slip_speed / stiction_tolerance\<close>, the Stribeck coefficient is \<open>\<mu>\<^sub>s * s5(v)\<close> on
  \<open>[0,1)\<close>, \<open>\<mu>\<^sub>s - (\<mu>\<^sub>s - \<mu>\<^sub>d) * s5((v-1)/2)\<close> on \<open>[1,3)\<close> and \<open>\<mu>\<^sub>d\<close> for \<open>v \<ge> 3\<close>, with
  \<open>s5(x) = 10x\<^sup>3 - 15x\<^sup>4 + 6x\<^sup>5\<close>; the two branches meeting at \<open>v = 1\<close> both give \<open>\<mu>\<^sub>s\<close>,
  those meeting at \<open>v = 3\<close> both give \<open>\<mu>\<^sub>d\<close>, and the coefficient is a continuous
  function of the slip speed there.
\<close>

theorem C4_stribeck_coefficient:
  assumes "0 < tol" and "0 \<le> speed"
    and "mu_d \<le> mu_s" and "0 \<le> mu_d"
  defines "m \<equiv> set_stiction_tolerance tol"
    and "fr \<equiv> \<lparr>static_friction = mu_s, dynamic_friction = mu_d\<rparr>"
    and "v \<equiv> speed / tol"
  shows "(0 \<le> v \<and> v < 1 \<longrightarrow> ComputeFrictionCoefficient m speed fr = mu_s * s5 v)
    \<and> (1 \<le> v \<and> v < 3 \<longrightarrow>
          ComputeFrictionCoefficient m speed fr = mu_s - (mu_s - mu_d) * s5 ((v - 1) / 2))
    \<and> (3 \<le> v \<longrightarrow> ComputeFrictionCoefficient m speed fr = mu_d)
    \<and> mu_s * s5 1 = mu_s \<and> mu_s - (mu_s - mu_d) * s5 ((1 - 1) / 2) = mu_s
    \<and> mu_s - (mu_s - mu_d) * s5 ((3 - 1) / 2) = mu_d
    \<and> ComputeFrictionCoefficient m tol fr = mu_s
    \<and> ComputeFrictionCoefficient m (3 * tol) fr = mu_d
    \<and> isCont (\<lambda>s. ComputeFrictionCoefficient m s fr) tol
    \<and> isCont (\<lambda>s. ComputeFrictionCoefficient m s fr) (3 * tol)"
proof -
  have c: "isCont (\<lambda>s. ComputeFrictionCoefficient m s fr) x" for x
    using cont_ComputeFrictionCoefficient [of m fr]
    by (simp add: continuous_on_eq_continuous_at)
  have inv: "inv_v_stiction_tolerance m = 1 / tol"
    by (simp add: m_def set_stiction_tolerance_def)
  have pieces: "ComputeFrictionCoefficient m s fr =
      (if s / tol \<ge> 3 then mu_d
       else if s / tol \<ge> 1 then mu_s - (mu_s - mu_d) * s5 ((s / tol - 1) / 2)
       else mu_s * s5 (s / tol))" for s
    by (simp add: ComputeFrictionCoefficient_def Let_def inv fr_def step5_s5)
  have s5_0: "s5 0 = 0" and s5_1: "s5 1 = 1" by (simp_all add: s5_def)
  have a: "0 \<le> v \<and> v < 1 \<longrightarrow> ComputeFrictionCoefficient m speed fr = mu_s * s5 v"
    unfolding pieces v_def by simp
  have b: "1 \<le> v \<and> v < 3 \<longrightarrow>
          ComputeFrictionCoefficient m speed fr = mu_s - (mu_s - mu_d) * s5 ((v - 1) / 2)"
    unfolding pieces v_def by simp
  have d: "3 \<le> v \<longrightarrow> ComputeFrictionCoefficient m speed fr = mu_d"
    unfolding pieces v_def by simp
  have e: "ComputeFrictionCoefficient m tol fr = mu_s"
    using assms(1) unfolding pieces by (simp add: s5_0)
  have f: "ComputeFrictionCoefficient m (3 * tol) fr = mu_d"
    using assms(1) unfolding pieces by simp
  show ?thesis
    using a b d e f c by (simp add: s5_0 s5_1)
qed

theorem C4_stribeck_coefficient_witness:
  "ComputeFrictionCoefficient (set_stiction_tolerance (1/1000)) (1/2000)
       \<lparr>static_friction = 1, dynamic_friction = 1/2\<rparr> = 1/2
   \<and> ComputeFrictionCoefficient (set_stiction_tolerance (1/1000)) (1/1000)
       \<lparr>static_friction = 1, dynamic_friction = 1/2\<rparr> = 1
   \<and> ComputeFrictionCoefficient (set_stiction_tolerance (1/1000)) (3/1000)
       \<lparr>static_friction = 1, dynamic_friction = 1/2\<rparr> = 1/2"
proof -
  have s5_half: "s5 (1/2) = 1/2"
    by (simp add: s5_def power_numeral_reduce)
  show ?thesis
    using C4_stribeck_coefficient [of "1/1000" "1/2000" "1/2" 1] s5_half
    by simp
qed

section \<open>Helper facts about errors and vectors\<close>

lemma bind_err_Inr_iff:
  "bind_err m f = Inr y \<longleftrightarrow> (\<exists>x. m = Inr x \<and> f x = Inr y)"
  by (cases m) (simp_all add: bind_err_def)

lemma bind_err_Inr [simp]: "bind_err (Inr x) f = f x"
  by (simp add: bind_err_def)

lemma bind_err_Inl [simp]: "bind_err (Inl e) f = Inl e"
  by (simp add: bind_err_def)

lemma vadd_vzero [simp]: "vadd a vzero = a"
  by (cases a) (simp add: vzero_def)

lemma at_add_Inr_iff:
  "at_add F i G = Inr F' \<longleftrightarrow> i < length F \<and> F' = F[i := sf_add (F ! i) G]"
  by (auto simp: at_add_def)

section \<open>Properties of continuous point contact\<close>












lemma ex_find_A: "FindBodyByGeometryId ex_plant (id_A ex_pair) = Inr 1"
  by (simp add: FindBodyByGeometryId_def ex_plant_def ex_pair_def)

lemma ex_find_B: "FindBodyByGeometryId ex_plant (id_B ex_pair) = Inr 0"
  by (simp add: FindBodyByGeometryId_def ex_plant_def ex_pair_def)




lemma ex_node: "node_index ex_plant b = b"
  by (simp add: ex_plant_def)











section \<open>The world body receives no contact force\<close>

lemma guarded_at_add:
  assumes "\<forall>b. b \<noteq> world_index \<longrightarrow> node_index plant b \<noteq> w"
    and "(if b \<noteq> world_index then at_add F (node_index plant b) G else Inr F) = Inr F1"
  shows "length F1 = length F \<and> F1 ! w = F ! w"
  using assms by (auto simp: at_add_Inr_iff split: if_splits)

lemma AddPenaltyForcesOfPair_world:
  fixes ctx :: Context
  assumes "\<forall>b. b \<noteq> world_index \<longrightarrow> node_index plant b \<noteq> w"
    and "AddPenaltyForcesOfPair plant ctx info F = Inr F'"
  shows "length F' = length F \<and> F' ! w = F ! w"
proof -
  from assms(2) obtain a b GA GB F1 where
    A: "(if a \<noteq> world_index then at_add F (node_index plant a) GA else Inr F) = Inr F1"
    and B: "(if b \<noteq> world_index then at_add F1 (node_index plant b) GB else Inr F1) = Inr F'"
    unfolding AddPenaltyForcesOfPair_def Let_def bind_err_Inr_iff by blast
  from guarded_at_add [OF assms(1) A] guarded_at_add [OF assms(1) B]
  show ?thesis by simp
qed

lemma AddPenaltyForces_world:
  fixes ctx :: Context
  assumes "\<forall>b. b \<noteq> world_index \<longrightarrow> node_index plant b \<noteq> w"
    and "AddPenaltyForces plant ctx infos F = Inr F'"
  shows "length F' = length F \<and> F' ! w = F ! w"
  using assms(2)
proof (induction infos arbitrary: F)
  case Nil
  then show ?case by simp
next
  case (Cons info infos)
  then obtain F1 where 1: "AddPenaltyForcesOfPair plant ctx info F = Inr F1"
    and 2: "AddPenaltyForces plant ctx infos F1 = Inr F'"
    by (auto simp: bind_err_Inr_iff)
  from AddPenaltyForcesOfPair_world [OF assms(1) 1] Cons.IH [OF 2]
  show ?case by simp
qed

lemma penalty_world:
  fixes ctx :: Context
  assumes "\<forall>b. b \<noteq> world_index \<longrightarrow> node_index plant b \<noteq> w"
    and "CalcAndAddContactForcesByPenaltyMethod plant ctx ecr F = Inr F'"
  shows "length F' = length F \<and> F' ! w = F ! w"
  using assms(2) AddPenaltyForces_world [OF assms(1)]
  by (auto simp: CalcAndAddContactForcesByPenaltyMethod_def bind_err_Inr_iff split: if_splits)

lemma AddHydroelasticForcesOfSurface_world:
  fixes ctx :: Context
  assumes "\<forall>b. b \<noteq> world_index \<longrightarrow> node_index plant b \<noteq> w"
    and "AddHydroelasticForcesOfSurface plant ext ctx insp s acc = Inr acc'"
  shows "length (F_BBo_W_array acc') = length (F_BBo_W_array acc)
       \<and> F_BBo_W_array acc' ! w = F_BBo_W_array acc ! w"
proof -
  from assms(2) obtain a b GA GB F1 F2 where
    A: "(if a \<noteq> world_index then at_add (F_BBo_W_array acc) (node_index plant a) GA
         else Inr (F_BBo_W_array acc)) = Inr F1"
    and B: "(if b \<noteq> world_index then at_add F1 (node_index plant b) GB else Inr F1) = Inr F2"
    and C: "F_BBo_W_array acc' = F2"
    unfolding AddHydroelasticForcesOfSurface_def Let_def bind_err_Inr_iff split_beta
    by fastforce
  from guarded_at_add [OF assms(1) A] guarded_at_add [OF assms(1) B] C
  show ?thesis by simp
qed

lemma AddHydroelasticForces_world:
  fixes ctx :: Context
  assumes "\<forall>b. b \<noteq> world_index \<longrightarrow> node_index plant b \<noteq> w"
    and "AddHydroelasticForces plant ext ctx insp ss acc = Inr acc'"
  shows "length (F_BBo_W_array acc') = length (F_BBo_W_array acc)
       \<and> F_BBo_W_array acc' ! w = F_BBo_W_array acc ! w"
  using assms(2)
proof (induction ss arbitrary: acc)
  case Nil
  then show ?case by simp
next
  case (Cons s ss)
  then obtain acc1 where
    1: "AddHydroelasticForcesOfSurface plant ext ctx insp s acc = Inr acc1"
    and 2: "AddHydroelasticForces plant ext ctx insp ss acc1 = Inr acc'"
    by (auto simp: bind_err_Inr_iff)
  from AddHydroelasticForcesOfSurface_world [OF assms(1) 1] Cons.IH [OF 2]
  show ?case by simp
qed

lemma hydro_world:
  fixes ctx :: Context
  assumes "\<forall>b. b \<noteq> world_index \<longrightarrow> node_index plant b \<noteq> w"
    and "w < num_bodies plant"
    and "CalcHydroelasticContactForces plant ext ctx ecs cache = Inr r"
  shows "length (F_BBo_W_array r) = num_bodies plant \<and> F_BBo_W_array r ! w = SpatialForce_Zero"
  using assms(2,3) AddHydroelasticForces_world [OF assms(1)]
  by (fastforce simp: CalcHydroelasticContactForces_def bind_err_Inr_iff Let_def
      split: if_splits)

lemma pass_world:
  fixes ctx :: Context
  assumes "\<forall>b. b \<noteq> world_index \<longrightarrow> node_index plant b \<noteq> w"
    and "w < num_bodies plant"
    and "CalcSpatialContactForcesContinuous plant ext ctx ecr ecs cache F = Inr F'"
  shows "F' ! w = SpatialForce_Zero"
proof -
  let ?Z = "map (\<lambda>_. SpatialForce_Zero) F"
  from assms(3) have len: "length F = num_bodies plant"
    and run: "CalcAndAddSpatialContactForcesContinuous plant ext ctx ecr ecs cache ?Z = Inr F'"
    by (auto simp: CalcSpatialContactForcesContinuous_def split: if_splits)
  have z: "?Z ! w = SpatialForce_Zero" using len assms(2) by simp
  show ?thesis
  proof (cases "num_collision_geometries plant = 0")
    case True
    with run z show ?thesis
      by (auto simp: CalcAndAddSpatialContactForcesContinuous_def split: if_splits)
  next
    case False
    show ?thesis
    proof (cases "contact_model plant")
      case kPoint
      with run False have "CalcAndAddContactForcesByPenaltyMethod plant ctx ecr ?Z = Inr F'"
        by (auto simp: CalcAndAddSpatialContactForcesContinuous_def split: if_splits)
      from penalty_world [OF assms(1) this] z show ?thesis by simp
    next
      case kHydroelastic
      with run False obtain r where
        "CalcHydroelasticContactForces plant ext ctx ecs cache = Inr r" "F' = F_BBo_W_array r"
        by (auto simp: CalcAndAddSpatialContactForcesContinuous_def bind_err_Inr_iff
            split: if_splits)
      with hydro_world [OF assms(1,2)] show ?thesis by simp
    next
      case kHydroelasticWithFallback
      with run False obtain F1 r where
        1: "CalcAndAddContactForcesByPenaltyMethod plant ctx ecr ?Z = Inr F1"
        and 2: "CalcHydroelasticContactForces plant ext ctx ecs cache = Inr r"
        and 3: "length F1 = length (F_BBo_W_array r)"
        and 4: "F' = map2 sf_add F1 (F_BBo_W_array r)"
        by (auto simp: CalcAndAddSpatialContactForcesContinuous_def bind_err_Inr_iff Let_def
            split: if_splits)
      from penalty_world [OF assms(1) 1] z have a: "F1 ! w = SpatialForce_Zero" by simp
      from hydro_world [OF assms(1,2) 2]
      have b: "F_BBo_W_array r ! w = SpatialForce_Zero"
        "length (F_BBo_W_array r) = num_bodies plant"
        by simp_all
      have "sf_add SpatialForce_Zero SpatialForce_Zero = SpatialForce_Zero"
        by (simp add: sf_add_def SpatialForce_Zero_def vzero_def)
      with a b 3 4 assms(2) show ?thesis by simp
    qed
  qed
qed

text \<open>
  C9. Let every body other than the world have a body node other than the world's, and
  let the world's node index be within the per-body array. Then the point-penalty
  accumulation leaves the world body's entry of the accumulator as it was, the
  hydroelastic computation leaves it zero, and a whole pass of
  \<open>CalcSpatialContactForcesContinuous\<close>, under each of the three contact models, returns
  an accumulator whose world entry is exactly zero.
\<close>

theorem C9_world_body_gets_no_contact_force:
  fixes ctx :: Context
  assumes "\<forall>b. b \<noteq> world_index \<longrightarrow> node_index plant b \<noteq> node_index plant world_index"
    and "node_index plant world_index < num_bodies plant"
  shows "(CalcAndAddContactForcesByPenaltyMethod plant ctx ecr F = Inr F'
            \<longrightarrow> F' ! node_index plant world_index = F ! node_index plant world_index)
    \<and> (CalcHydroelasticContactForces plant ext ctx ecs cache = Inr r
            \<longrightarrow> F_BBo_W_array r ! node_index plant world_index = SpatialForce_Zero)
    \<and> (CalcSpatialContactForcesContinuous plant ext ctx ecr ecs cache F0 = Inr F''
            \<longrightarrow> F'' ! node_index plant world_index = SpatialForce_Zero)"
  using penalty_world [OF assms(1)] hydro_world [OF assms(1,2)] pass_world [OF assms(1,2)]
  by blast

lemma ex_world_node:
  "\<forall>b. b \<noteq> world_index \<longrightarrow> node_index ex_plant b \<noteq> node_index ex_plant world_index"
  "node_index ex_plant world_index < num_bodies ex_plant"
  by (simp_all add: ex_plant_def world_index_def)

lemma ex_penalty_pass:
  "CalcAndAddContactForcesByPenaltyMethod ex_plant ex_context_approaching
     (Inr \<lparr>point_pair_contact_info =
             [\<lparr>bodyA_index = 1, bodyB_index = 0, contact_force = (0, 0, - 3 / 100),
               contact_point = (0, 0, - 1 / 200), vn_reported = 1, slip_speed = 0,
               point_pair = ex_pair\<rparr>],
           hydroelastic_contact_info = []\<rparr>)
     [SpatialForce_Zero, SpatialForce_Zero]
   = Inr [SpatialForce_Zero, \<lparr>rotational = vzero, translational = (0, 0, 3 / 100)\<rparr>]"
  using ex_find_A ex_find_B
  by (simp add: CalcAndAddContactForcesByPenaltyMethod_def AddPenaltyForcesOfPair_def Let_def
      ex_node world_index_def at_add_def sf_add_def Shift_force_def SpatialForce_Zero_def
      vzero_def ex_context_approaching_def ex_context_def ex_pose_def)
     (simp add: ex_plant_def)

lemma ex_find_MN:
  "FindBodyByGeometryId ex_plant (id_M ex_surface) = Inr 1"
  "FindBodyByGeometryId ex_plant (id_N ex_surface) = Inr 0"
  by (simp_all add: FindBodyByGeometryId_def ex_plant_def ex_surface_def)

lemma ex_surface_friction: "SurfaceDynamicFriction ex_ext ex_inspector_MN ex_surface = Inr (1 / 2)"
  by (simp add: SurfaceDynamicFriction_def Let_def ex_inspector_MN_def ex_surface_def ex_ext_def)

lemma ex_hydro_pass:
  "CalcHydroelasticContactForces (ex_plant\<lparr>contact_model := kHydroelastic\<rparr>) ex_ext
     ex_context_MN (Inr [ex_surface]) ex_hydro_cache
   = Inr \<lparr>F_BBo_W_array =
            [SpatialForce_Zero, \<lparr>rotational = vzero, translational = (1 / 2, 0, 0)\<rparr>],
          contact_info =
            [\<lparr>contact_surface = ex_surface,
              F_Ac_W = \<lparr>rotational = vzero, translational = (1 / 2, 0, 0)\<rparr>,
              quadrature_point_data = []\<rparr>]\<rparr>"
proof -
  have f: "FindBodyByGeometryId (ex_plant\<lparr>contact_model := kHydroelastic\<rparr>) g
            = FindBodyByGeometryId ex_plant g" for g
    by (simp add: FindBodyByGeometryId_def split: option.splits)
  have e: "EvalGeometryQueryInput ex_context_MN
            = Inr (ex_query\<lparr>inspector := ex_inspector_MN\<rparr>)"
    by (simp add: EvalGeometryQueryInput_def ex_context_MN_def)
  have x: "ComputeSpatialForcesAtCentroidFromHydroelasticModel ex_ext data diss mu
            = ([], \<lparr>rotational = vzero, translational = (mu, 0, 0)\<rparr>)"
    "ShiftSpatialForcesAtCentroidToBodyOrigins ex_ext data G = (G, sf_neg G)" for data diss mu G
    by (simp_all add: ex_ext_def)
  have n: "num_bodies ex_plant = 2" "num_collision_geometries ex_plant = 2"
    by (simp_all add: ex_plant_def)
  show ?thesis
    by (simp add: CalcHydroelasticContactForces_def AddHydroelasticForcesOfSurface_def Let_def
        ex_hydro_cache_def e f ex_find_MN ex_surface_friction x n ex_node world_index_def
        at_add_def sf_add_def SpatialForce_Zero_def vzero_def numeral_2_eq_2)
qed

theorem C9_world_body_gets_no_contact_force_witness:
  "CalcAndAddContactForcesByPenaltyMethod ex_plant ex_context_approaching
     (Inr \<lparr>point_pair_contact_info =
             [\<lparr>bodyA_index = 1, bodyB_index = 0, contact_force = (0, 0, - 3 / 100),
               contact_point = (0, 0, - 1 / 200), vn_reported = 1, slip_speed = 0,
               point_pair = ex_pair\<rparr>],
           hydroelastic_contact_info = []\<rparr>)
     [SpatialForce_Zero, SpatialForce_Zero]
   = Inr [SpatialForce_Zero, \<lparr>rotational = vzero, translational = (0, 0, 3 / 100)\<rparr>]
   \<and> [SpatialForce_Zero, \<lparr>rotational = vzero, translational = (0, 0, 3 / 100)\<rparr>]
        ! node_index ex_plant world_index = SpatialForce_Zero
   \<and> (\<exists>r. CalcHydroelasticContactForces (ex_plant\<lparr>contact_model := kHydroelastic\<rparr>) ex_ext
            ex_context_MN (Inr [ex_surface]) ex_hydro_cache = Inr r
          \<and> F_BBo_W_array r ! node_index ex_plant world_index = SpatialForce_Zero)"
proof -
  have h: "\<forall>b. b \<noteq> world_index \<longrightarrow>
             node_index (ex_plant\<lparr>contact_model := kHydroelastic\<rparr>) b
               \<noteq> node_index (ex_plant\<lparr>contact_model := kHydroelastic\<rparr>) world_index"
    "node_index (ex_plant\<lparr>contact_model := kHydroelastic\<rparr>) world_index
       < num_bodies (ex_plant\<lparr>contact_model := kHydroelastic\<rparr>)"
    using ex_world_node by simp_all
  from C9_world_body_gets_no_contact_force [OF ex_world_node,
      where ctx = ex_context_approaching and F = "[SpatialForce_Zero, SpatialForce_Zero]"]
    C9_world_body_gets_no_contact_force [OF h, where ctx = ex_context_MN and ext = ex_ext
      and ecs = "Inr [ex_surface]" and cache = ex_hydro_cache]
    ex_penalty_pass ex_hydro_pass
  show ?thesis by (simp add: ex_node world_index_def)
qed

section \<open>A plant without collision geometry\<close>

text \<open>
  C10. With zero registered collision geometries and any context, in particular one whose
  geometry query input port has no value, the geometry-input validation accepts the
  context, the point-pair penetration computation returns the empty list whatever the
  port holds, and the penalty-method accumulation returns the accumulator unchanged (it
  must have one entry per body, which the source demands first); the hydroelastic
  computation likewise returns all-zero body forces.
\<close>

theorem C10_no_collision_geometry:
  fixes ctx :: Context
  assumes "num_collision_geometries plant = 0"
  shows "IsValidGeometryInput plant (ctx\<lparr>geometry_query_input_port := None\<rparr>)
    \<and> ValidateGeometryInput plant (ctx\<lparr>geometry_query_input_port := None\<rparr>) = Inr ()
    \<and> CalcPointPairPenetrations plant (ctx\<lparr>geometry_query_input_port := port\<rparr>) = Inr []
    \<and> (length F = num_bodies plant \<longrightarrow>
         CalcAndAddContactForcesByPenaltyMethod plant
           (ctx\<lparr>geometry_query_input_port := None\<rparr>) ecr F = Inr F)
    \<and> (length (F_BBo_W_array cache) = num_bodies plant \<longrightarrow>
         CalcHydroelasticContactForces plant ext (ctx\<lparr>geometry_query_input_port := None\<rparr>)
           ecs cache
         = Inr (cache\<lparr>F_BBo_W_array := replicate (num_bodies plant) SpatialForce_Zero\<rparr>))"
  using assms
  by (simp add: IsValidGeometryInput_def ValidateGeometryInput_def
      CalcPointPairPenetrations_def CalcAndAddContactForcesByPenaltyMethod_def
      CalcHydroelasticContactForces_def Let_def)

theorem C10_no_collision_geometry_witness:
  "IsValidGeometryInput (ex_plant\<lparr>num_collision_geometries := 0\<rparr>)
     (ex_context_approaching\<lparr>geometry_query_input_port := None\<rparr>)
   \<and> CalcPointPairPenetrations (ex_plant\<lparr>num_collision_geometries := 0\<rparr>)
       (ex_context_approaching\<lparr>geometry_query_input_port := None\<rparr>) = Inr []
   \<and> CalcAndAddContactForcesByPenaltyMethod (ex_plant\<lparr>num_collision_geometries := 0\<rparr>)
       (ex_context_approaching\<lparr>geometry_query_input_port := None\<rparr>)
       (Inl (LogicError ''unconnected'')) [SpatialForce_Zero, SpatialForce_Zero]
       = Inr [SpatialForce_Zero, SpatialForce_Zero]"
proof -
  have z: "num_collision_geometries (ex_plant\<lparr>num_collision_geometries := 0\<rparr>) = 0"
    by simp
  have l: "length [SpatialForce_Zero, SpatialForce_Zero]
             = num_bodies (ex_plant\<lparr>num_collision_geometries := 0\<rparr>)"
    by (simp add: ex_plant_def)
  from C10_no_collision_geometry [OF z, where ctx = ex_context_approaching and port = None
      and F = "[SpatialForce_Zero, SpatialForce_Zero]" and ecr = "Inl (LogicError ''unconnected'')"]
    l
  show ?thesis by simp
qed

section \<open>Friction of a hydroelastic contact surface\<close>

lemma SurfaceDynamicFriction_only_M:
  "SurfaceDynamicFriction ext insp s =
     (case insp (id_M s) of
        None \<Rightarrow> Inl DemandFailed
      | Some pM \<Rightarrow>
          (case friction pM of
             None \<Rightarrow> Inl ThrowUnless
           | Some fM \<Rightarrow>
               Inr (dynamic_friction (CalcContactFrictionFromSurfaceProperties ext fM fM))))"
  by (simp add: SurfaceDynamicFriction_def Let_def split: option.splits)

text \<open>
  C6, evaluated on the code. For the surface between the sphere M (dynamic friction
  \<open>1/2\<close>) and the ground N (dynamic friction \<open>1\<close>), the coefficient handed to the
  traction calculator is \<open>1/2\<close>, the combination of M's friction with itself, and not
  \<open>2/3\<close>, the combination of M's with N's; the recorded traction carries \<open>1/2\<close>.
\<close>

theorem C6_hydroelastic_friction_ignores_N:
  "SurfaceDynamicFriction ex_ext ex_inspector_MN ex_surface = Inr (1 / 2)
   \<and> dynamic_friction (CalcContactFrictionFromSurfaceProperties ex_ext
        \<lparr>static_friction = 1, dynamic_friction = 1 / 2\<rparr>
        \<lparr>static_friction = 2, dynamic_friction = 1\<rparr>) = 2 / 3
   \<and> GetCoulombFriction (id_M ex_surface) ex_inspector_MN
       = Inr \<lparr>static_friction = 1, dynamic_friction = 1 / 2\<rparr>
   \<and> GetCoulombFriction (id_N ex_surface) ex_inspector_MN
       = Inr \<lparr>static_friction = 2, dynamic_friction = 1\<rparr>
   \<and> CalcHydroelasticContactForces (ex_plant\<lparr>contact_model := kHydroelastic\<rparr>) ex_ext
       ex_context_MN (Inr [ex_surface]) ex_hydro_cache
     = Inr \<lparr>F_BBo_W_array =
              [SpatialForce_Zero, \<lparr>rotational = vzero, translational = (1 / 2, 0, 0)\<rparr>],
            contact_info =
              [\<lparr>contact_surface = ex_surface,
                F_Ac_W = \<lparr>rotational = vzero, translational = (1 / 2, 0, 0)\<rparr>,
                quadrature_point_data = []\<rparr>]\<rparr>"
proof -
  have "GetCoulombFriction (id_M ex_surface) ex_inspector_MN
       = Inr \<lparr>static_friction = 1, dynamic_friction = 1 / 2\<rparr>"
    "GetCoulombFriction (id_N ex_surface) ex_inspector_MN
       = Inr \<lparr>static_friction = 2, dynamic_friction = 1\<rparr>"
    by (simp_all add: GetCoulombFriction_def ex_inspector_MN_def ex_surface_def)
  moreover have "dynamic_friction (CalcContactFrictionFromSurfaceProperties ex_ext
        \<lparr>static_friction = 1, dynamic_friction = 1 / 2\<rparr>
        \<lparr>static_friction = 2, dynamic_friction = 1\<rparr>) = 2 / 3"
    by (simp add: ex_ext_def)
  ultimately show ?thesis
    using ex_surface_friction ex_hydro_pass by simp
qed

section \<open>Properties of the discrete step\<close>






section \<open>Properties of the algebraic loop guard\<close>

text \<open>
  C3. When the non-contact-force evaluation is entered while its marker is set, the entry
  fails with the algebraic loop error and does not recurse. An evaluation that starts with
  the marker clear and is re-entered from its own call stack fails with that error, raised
  by the inner entry. Whatever the body does (complete, throw, or re-enter), the marker is
  clear when the outer evaluation has exited, so a separate later evaluation succeeds.
\<close>

theorem C3_algebraic_loop_guard:
  "CalcNonContactForces True behaviour True = (Inl (RuntimeError algebraic_loop_message), True)
   \<and> CalcNonContactForces True (Reenters inner) False
       = (Inl (RuntimeError algebraic_loop_message), False)
   \<and> CalcNonContactForces True (Throws e) False = (Inl e, False)
   \<and> snd (CalcNonContactForces True behaviour False) = False
   \<and> CalcNonContactForces True Completes (snd (CalcNonContactForces True behaviour False))
       = (Inr (), False)"
  by (simp add: ThrowIfNonContactForceInProgress_def Let_def)

section \<open>Properties of the actuation input\<close>

lemma CheckNoInstancePort_first:
  fixes ctx :: ActuationContext
  assumes "\<forall>j \<in> set pre. instance_actuation_ports ctx j = None"
    and "instance_actuation_ports ctx i \<noteq> None"
  shows "CheckNoInstancePort plant ctx (pre @ i # post)
           = Inl (LogicError (both_connected_message (GetModelInstanceName plant i)))"
  using assms by (induction pre) simp_all

lemma CheckNoInstancePort_some:
  fixes ctx :: ActuationContext
  assumes "i \<in> set xs" and "instance_actuation_ports ctx i \<noteq> None"
  shows "\<exists>j \<in> set xs. instance_actuation_ports ctx j \<noteq> None \<and> CheckNoInstancePort plant ctx xs
           = Inl (LogicError (both_connected_message (GetModelInstanceName plant j)))"
  using assms by (induction xs) auto

lemma AssembleInstances_first:
  fixes ctx :: ActuationContext
  assumes "\<forall>j \<in> set pre. num_actuated_dofs plant j > 0 \<longrightarrow>
             (\<exists>u. instance_actuation_ports ctx j = Some u \<and> \<not> hasNaN u)"
    and "num_actuated_dofs plant i > 0"
    and "instance_actuation_ports ctx i = None"
  shows "AssembleInstances plant ctx (pre @ i # post) acc
           = Inl (LogicError (must_be_connected_message (GetModelInstanceName plant i)))"
  using assms by (induction pre arbitrary: acc) (auto simp: Let_def)

lemma AssembleInstances_fails:
  fixes ctx :: ActuationContext
  assumes "i \<in> set xs"
    and "num_actuated_dofs plant i > 0"
    and "instance_actuation_ports ctx i = None"
  shows "\<exists>e. AssembleInstances plant ctx xs acc = Inl e"
  using assms by (induction xs arbitrary: acc) (auto simp: Let_def split: option.splits)

lemma upt_split_at:
  assumes "a \<le> i" and "i < n"
  shows "[a ..< n] = [a ..< i] @ i # [Suc i ..< n]"
  using assms by (metis le_Suc_ex less_or_eq_imp_le upt_add_eq_append upt_conv_Cons)

text \<open>
  C7, as amended. Let \<open>i\<close> be a model instance other than the world. If the all-instances
  port has a value and the port of \<open>i\<close> has one too, assembly fails with the "both
  connected" error naming a model instance whose port has a value: the lowest such
  non-world instance, which is \<open>i\<close> when no lower one has a value. If the all-instances
  port has no value and \<open>i\<close> has actuated degrees of freedom and no value on its port,
  assembly fails; the error is the "must be connected" error naming \<open>i\<close> when every lower
  non-world instance with actuated degrees of freedom has a NaN-free value.
\<close>

theorem C7_actuation_input_errors:
  fixes ctx :: ActuationContext
  assumes "1 \<le> i" and "i < num_model_instances plant"
  shows "(actuation_port ctx \<noteq> None \<and> instance_actuation_ports ctx i \<noteq> None
            \<and> (\<forall>j. 1 \<le> j \<and> j < i \<longrightarrow> instance_actuation_ports ctx j = None)
          \<longrightarrow> AssembleActuationInput plant ctx
                = Inl (LogicError (both_connected_message (GetModelInstanceName plant i))))
    \<and> (actuation_port ctx \<noteq> None \<and> instance_actuation_ports ctx i \<noteq> None
          \<longrightarrow> (\<exists>j. 1 \<le> j \<and> j < num_model_instances plant
                   \<and> instance_actuation_ports ctx j \<noteq> None
                   \<and> AssembleActuationInput plant ctx
                       = Inl (LogicError (both_connected_message (GetModelInstanceName plant j)))))
    \<and> (actuation_port ctx = None \<and> num_actuated_dofs plant i > 0
            \<and> instance_actuation_ports ctx i = None
            \<and> (\<forall>j. 1 \<le> j \<and> j < i \<and> num_actuated_dofs plant j > 0 \<longrightarrow>
                   (\<exists>u. instance_actuation_ports ctx j = Some u \<and> \<not> hasNaN u))
          \<longrightarrow> AssembleActuationInput plant ctx
                = Inl (LogicError (must_be_connected_message (GetModelInstanceName plant i))))
    \<and> (actuation_port ctx = None \<and> num_actuated_dofs plant i > 0
            \<and> instance_actuation_ports ctx i = None
          \<longrightarrow> (\<exists>e. AssembleActuationInput plant ctx = Inl e))"
proof -
  let ?n = "num_model_instances plant"
  have split: "[1 ..< ?n] = [1 ..< i] @ i # [Suc i ..< ?n]"
    using upt_split_at [OF assms] .
  have mem: "i \<in> set [1 ..< ?n]" using assms by simp
  have a: "AssembleActuationInput plant ctx
             = Inl (LogicError (both_connected_message (GetModelInstanceName plant i)))"
    if "actuation_port ctx \<noteq> None" "instance_actuation_ports ctx i \<noteq> None"
      "\<forall>j. 1 \<le> j \<and> j < i \<longrightarrow> instance_actuation_ports ctx j = None"
  proof -
    have "CheckNoInstancePort plant ctx ([1 ..< i] @ i # [Suc i ..< ?n])
            = Inl (LogicError (both_connected_message (GetModelInstanceName plant i)))"
      by (rule CheckNoInstancePort_first) (use that in auto)
    with that(1) split show ?thesis
      by (auto simp: AssembleActuationInput_def)
  qed
  have b: "\<exists>j. 1 \<le> j \<and> j < ?n \<and> instance_actuation_ports ctx j \<noteq> None
             \<and> AssembleActuationInput plant ctx
                 = Inl (LogicError (both_connected_message (GetModelInstanceName plant j)))"
    if "actuation_port ctx \<noteq> None" "instance_actuation_ports ctx i \<noteq> None"
  proof -
    from CheckNoInstancePort_some [OF mem that(2), of plant] obtain j where
      "j \<in> set [1 ..< ?n]" "instance_actuation_ports ctx j \<noteq> None"
      "CheckNoInstancePort plant ctx [1 ..< ?n]
         = Inl (LogicError (both_connected_message (GetModelInstanceName plant j)))"
      by blast
    with that(1) show ?thesis
      by (auto simp: AssembleActuationInput_def)
  qed
  have c: "AssembleActuationInput plant ctx
             = Inl (LogicError (must_be_connected_message (GetModelInstanceName plant i)))"
    if "actuation_port ctx = None" "num_actuated_dofs plant i > 0"
      "instance_actuation_ports ctx i = None"
      "\<forall>j. 1 \<le> j \<and> j < i \<and> num_actuated_dofs plant j > 0 \<longrightarrow>
             (\<exists>u. instance_actuation_ports ctx j = Some u \<and> \<not> hasNaN u)"
  proof -
    have "AssembleInstances plant ctx ([1 ..< i] @ i # [Suc i ..< ?n]) []
            = Inl (LogicError (must_be_connected_message (GetModelInstanceName plant i)))"
      by (rule AssembleInstances_first) (use that in auto)
    with that(1) split show ?thesis
      by (simp add: AssembleActuationInput_def)
  qed
  have d: "\<exists>e. AssembleActuationInput plant ctx = Inl e"
    if "actuation_port ctx = None" "num_actuated_dofs plant i > 0"
      "instance_actuation_ports ctx i = None"
    using AssembleInstances_fails [OF mem that(2,3), of "[]"] that(1)
    by (simp add: AssembleActuationInput_def)
  from a b c d show ?thesis by blast
qed

theorem C7_actuation_input_errors_witness:
  "AssembleActuationInput ex_actuation_plant ex_both_connected
     = Inl (LogicError (both_connected_message ''arm''))
   \<and> AssembleActuationInput ex_actuation_plant ex_unconnected
       = Inl (LogicError (must_be_connected_message ''arm''))"
proof -
  have i: "(1::nat) \<le> 1" "1 < num_model_instances ex_actuation_plant"
    by (simp_all add: ex_actuation_plant_def)
  from C7_actuation_input_errors [OF i, where ctx = ex_both_connected]
    C7_actuation_input_errors [OF i, where ctx = ex_unconnected]
  show ?thesis
    by (simp add: ex_both_connected_def ex_unconnected_def ex_actuation_plant_def)
qed

text \<open>
  The claim as stated fails for the second of two unconnected instances: the model
  instance \<open>gripper\<close> has actuated degrees of freedom and no value on its port, yet the
  error names \<open>arm\<close>, where the loop stopped.
\<close>

theorem C7_second_unconnected_instance_counterexample:
  "actuation_port ex_unconnected = None
   \<and> 0 < num_actuated_dofs ex_actuation_plant 2
   \<and> instance_actuation_ports ex_unconnected 2 = None
   \<and> GetModelInstanceName ex_actuation_plant 2 = ''gripper''
   \<and> AssembleActuationInput ex_actuation_plant ex_unconnected
       = Inl (LogicError (must_be_connected_message ''arm''))
   \<and> AssembleActuationInput ex_actuation_plant ex_unconnected
       \<noteq> Inl (LogicError (must_be_connected_message ''gripper''))"
  by (simp add: AssembleActuationInput_def ex_actuation_plant_def ex_unconnected_def Let_def
      upt_conv_Cons must_be_connected_message_def)

section \<open>Properties of the joint limit penalty parameters\<close>

lemma PickLessStiffPenaltyParameters_least:
  assumes "\<not> isnan (fst params1)" and "\<not> isnan (fst params2)"
  defines "r \<equiv> PickLessStiffPenaltyParameters params1 params2"
  shows "(r = params1 \<or> r = params2)
       \<and> \<not> ed_less (fst params1) (fst r) \<and> \<not> ed_less (fst params2) (fst r)"
  using assms(1,2) unfolding r_def PickLessStiffPenaltyParameters_def Let_def
  by (cases "fst params1"; cases "fst params2") auto

lemma oscillator_finite_inertia:
  assumes "period \<noteq> 0" and "0 \<le> inertia"
  shows "CalcCriticallyDampedHarmonicOscillatorParameters (Fin period) (Fin inertia)
           = (Fin (inertia * (2 * pi / period)\<^sup>2),
              Fin (2 * sqrt (inertia * (inertia * (2 * pi / period)\<^sup>2))))"
  using assms
  by (simp add: CalcCriticallyDampedHarmonicOscillatorParameters_def Let_def power2_eq_square
      not_less)

lemma oscillator_infinite_inertia:
  "CalcCriticallyDampedHarmonicOscillatorParameters (Fin 1) PInf = (PInf, PInf)"
  by (simp add: CalcCriticallyDampedHarmonicOscillatorParameters_def Let_def signed_inf_def)

lemma oscillator_NaN_inertia:
  "CalcCriticallyDampedHarmonicOscillatorParameters (Fin 1) NaN = (NaN, NaN)"
  by (simp add: CalcCriticallyDampedHarmonicOscillatorParameters_def Let_def)

text \<open>
  C8, evaluated on the code. For a prismatic joint from the world to a body whose mass is
  unspecified (NaN), the child side's inertia is NaN, not infinite: its estimate is
  \<open>(NaN, NaN)\<close>, the comparison \<open>stiffness1 < stiffness2\<close> is false, and the selected pair
  is \<open>(NaN, NaN)\<close>. With an infinite inertia on that side the pair would be
  \<open>(\<infinity>, \<infinity>)\<close>, which is what the revolute estimator returns for the same two bodies.
\<close>

theorem C8_prismatic_unspecified_mass:
  "CalcPrismaticJointPenaltyParameters ex_prismatic (Fin 1) = (NaN, NaN)
   \<and> isnan (default_mass (child_body ex_prismatic))
   \<and> PickLessStiffPenaltyParameters
        (CalcCriticallyDampedHarmonicOscillatorParameters (Fin 1) PInf)
        (CalcCriticallyDampedHarmonicOscillatorParameters (Fin 1) PInf) = (PInf, PInf)
   \<and> CalcRevoluteJointPenaltyParameters ex_revolute (Fin 1) = Inr (PInf, PInf)"
  by (simp add: CalcPrismaticJointPenaltyParameters_def CalcRevoluteJointPenaltyParameters_def
      CalcRotationalInertiaAboutAxis_def PickLessStiffPenaltyParameters_def Let_def
      oscillator_infinite_inertia oscillator_NaN_inertia
      ex_prismatic_def ex_revolute_def ex_world_body_def ex_massless_body_def world_index_def)

end
